theory Spec2Isabelle
  imports Complex_Main
begin

section \<open>JavaScript numbers\<close>

text \<open>
  Both calculators compute on JavaScript numbers. A number is modelled as a real, or one
  of the three values that are not finite: \<open>NaN\<close>, \<open>Infinity\<close> and \<open>-Infinity\<close>.
  The operations below follow IEEE 754 on these four kinds of value: a division by zero
  gives \<open>NaN\<close> (for \<open>0/0\<close>) or an infinity, the square root of a negative number is
  \<open>NaN\<close>, and \<open>NaN\<close> propagates and compares false with everything.
  The model is an idealisation in three respects: finite results are exact (no rounding
  to 53 bits, no overflow, no underflow), and zero has no sign (a division by zero takes
  the sign of its numerator).
\<close>

datatype jsnum = Num real | NaN | PInf | NInf

fun isNaN :: "jsnum \<Rightarrow> bool" where
  "isNaN NaN = True"
| "isNaN _ = False"

text \<open>The truth value of a number in a condition: \<open>0\<close> and \<open>NaN\<close> are falsy.\<close>

fun truthy :: "jsnum \<Rightarrow> bool" where
  "truthy (Num x) = (x \<noteq> 0)"
| "truthy NaN = False"
| "truthy _ = True"

fun jsign :: "jsnum \<Rightarrow> real" where
  "jsign (Num x) = sgn x"
| "jsign NaN = 0"
| "jsign PInf = 1"
| "jsign NInf = - 1"

definition inf_of_sign :: "real \<Rightarrow> jsnum" where
  "inf_of_sign s = (if s = 0 then NaN else if 0 < s then PInf else NInf)"

fun jneg :: "jsnum \<Rightarrow> jsnum" where
  "jneg (Num x) = Num (- x)"
| "jneg NaN = NaN"
| "jneg PInf = NInf"
| "jneg NInf = PInf"

fun jadd :: "jsnum \<Rightarrow> jsnum \<Rightarrow> jsnum" where
  "jadd NaN _ = NaN"
| "jadd _ NaN = NaN"
| "jadd (Num x) (Num y) = Num (x + y)"
| "jadd PInf NInf = NaN"
| "jadd NInf PInf = NaN"
| "jadd PInf _ = PInf"
| "jadd _ PInf = PInf"
| "jadd NInf _ = NInf"
| "jadd _ NInf = NInf"

definition jsub :: "jsnum \<Rightarrow> jsnum \<Rightarrow> jsnum" where
  "jsub a b = jadd a (jneg b)"

fun jmul :: "jsnum \<Rightarrow> jsnum \<Rightarrow> jsnum" where
  "jmul NaN _ = NaN"
| "jmul _ NaN = NaN"
| "jmul (Num x) (Num y) = Num (x * y)"
| "jmul a b = inf_of_sign (jsign a * jsign b)"

fun jdiv :: "jsnum \<Rightarrow> jsnum \<Rightarrow> jsnum" where
  "jdiv NaN _ = NaN"
| "jdiv _ NaN = NaN"
| "jdiv (Num x) (Num y) = (if y = 0 then inf_of_sign (sgn x) else Num (x / y))"
| "jdiv (Num x) _ = Num 0"
| "jdiv a (Num y) = inf_of_sign (jsign a * (if y < 0 then - 1 else 1))"
| "jdiv _ _ = NaN"

text \<open>\<open>a ** n\<close> for a literal exponent \<open>n\<close>, which is also \<open>Math.pow(a, n)\<close>.\<close>

fun jpow :: "jsnum \<Rightarrow> nat \<Rightarrow> jsnum" where
  "jpow a 0 = Num 1"
| "jpow (Num x) n = Num (x ^ n)"
| "jpow NaN n = NaN"
| "jpow PInf n = PInf"
| "jpow NInf n = (if even n then PInf else NInf)"

fun jabs :: "jsnum \<Rightarrow> jsnum" where
  "jabs (Num x) = Num \<bar>x\<bar>"
| "jabs NaN = NaN"
| "jabs _ = PInf"

fun jsqrt :: "jsnum \<Rightarrow> jsnum" where
  "jsqrt (Num x) = (if x < 0 then NaN else Num (sqrt x))"
| "jsqrt PInf = PInf"
| "jsqrt _ = NaN"

fun jlt :: "jsnum \<Rightarrow> jsnum \<Rightarrow> bool" where
  "jlt NaN _ = False"
| "jlt _ NaN = False"
| "jlt (Num x) (Num y) = (x < y)"
| "jlt _ NInf = False"
| "jlt NInf _ = True"
| "jlt PInf _ = False"
| "jlt _ PInf = True"

definition jgt :: "jsnum \<Rightarrow> jsnum \<Rightarrow> bool" where
  "jgt a b = jlt b a"

fun jle :: "jsnum \<Rightarrow> jsnum \<Rightarrow> bool" where
  "jle NaN _ = False"
| "jle _ NaN = False"
| "jle a b = (\<not> jlt b a)"

text \<open>\<open>Math.max\<close> of two numbers: \<open>NaN\<close> if either is.\<close>

definition jmax :: "jsnum \<Rightarrow> jsnum \<Rightarrow> jsnum" where
  "jmax a b = (if isNaN a \<or> isNaN b then NaN else if jlt a b then b else a)"

text \<open>
  \<open>x.toFixed(d)\<close> is a string; the model keeps the number that the string denotes. For a
  finite \<open>x\<close> below \<open>10^21\<close> in magnitude the digits are those of the integer \<open>n\<close> with
  \<open>n / 10^d\<close> nearest to \<open>\<bar>x\<bar>\<close>, the larger \<open>n\<close> on a tie, behind the sign of \<open>x\<close>;
  from \<open>10^21\<close> on, and for the values that are not finite, the string is that of \<open>x\<close>
  itself. The code formats the double nearest to the exact value, so where the exact value
  is a decimal tie the last digit of the code's string can differ by one from the value
  given here.
\<close>

fun toFixed :: "nat \<Rightarrow> jsnum \<Rightarrow> jsnum" where
  "toFixed d (Num x) =
     (if 10 ^ 21 \<le> \<bar>x\<bar> then Num x
      else if x < 0 then Num (- (of_int \<lfloor>- x * 10 ^ d + 1 / 2\<rfloor> / 10 ^ d))
      else Num (of_int \<lfloor>x * 10 ^ d + 1 / 2\<rfloor> / 10 ^ d))"
| "toFixed d a = a"

section \<open>The degradation model (first calculator)\<close>

subsection \<open>Text fields\<close>

text \<open>
  The state of the first calculator keeps every numeric field as a string. The code
  looks at such a string in two ways only: it compares it with the empty string, and it
  converts it with \<open>Number\<close>. A field is therefore modelled by these two observations:
  \<open>Empty\<close> is the empty string, and \<open>Text a\<close> is a non-empty string that \<open>Number\<close>
  converts to \<open>a\<close> (\<open>NaN\<close> for a string that is not a numeral). \<open>Number('')\<close> is \<open>0\<close>.
\<close>

datatype field = Empty | Text jsnum

fun Number :: "field \<Rightarrow> jsnum" where
  "Number Empty = Num 0"
| "Number (Text a) = a"

text \<open>
  \<open>commitValue\<close> of the numeric input widget, on the text typed so far: the four
  incomplete texts commit the empty string (they are the \<open>incomplete\<close> flag here,
  with \<open>Empty\<close>), anything else commits \<open>String\<close> of its number clamped to the
  widget's bounds.
\<close>

definition commitValue :: "real \<Rightarrow> real \<Rightarrow> bool \<Rightarrow> field \<Rightarrow> field" where
  "commitValue lo hi incomplete val =
     (if val = Empty \<or> incomplete then Empty
      else let num = Number val;
               num1 = (if jlt num (Num lo) then Num lo else num);
               num2 = (if jgt num1 (Num hi) then Num hi else num1)
           in Text num2)"

subsection \<open>State\<close>

record stateA =
  soc :: field
  batteryCapacity :: field
  drivingConsumption :: field
  showAdvanced :: bool
  temperature :: field
  baseEfficiency :: field
  chargingDegradation :: field
  batteryAgeCycles :: field
  batteryAgeYears :: field
  terrainFactor :: field
  climateControl :: bool
  climateFactor :: field
  regenBraking :: bool
  regenFactor :: field
  predictedRange :: "jsnum option"
  calculationTriggered :: bool

text \<open>The initial values of the component's state hooks.\<close>

definition initialA :: stateA where
  "initialA =
     \<lparr> soc = Empty, batteryCapacity = Empty, drivingConsumption = Empty,
       showAdvanced = False,
       temperature = Text (Num 25), baseEfficiency = Text (Num 0.98),
       chargingDegradation = Text (Num 0.98), batteryAgeCycles = Text (Num 100),
       batteryAgeYears = Text (Num 2), terrainFactor = Text (Num 1.0),
       climateControl = False, climateFactor = Text (Num 0.85),
       regenBraking = True, regenFactor = Text (Num 1.05),
       predictedRange = None, calculationTriggered = False \<rparr>"

subsection \<open>getDynamicDefaults\<close>

text \<open>The pair is the object \<open>{ consumption, terrainFactor }\<close>.\<close>

definition getDynamicDefaults :: "jsnum \<Rightarrow> jsnum \<times> jsnum" where
  "getDynamicDefaults capacity =
     (let consumption =
            (if jgt capacity (Num 75) then Num 18
             else if jlt capacity (Num 40) then Num 14 else Num 16);
          terrain = (if jgt capacity (Num 75) then Num 1.05 else Num 1.0)
      in (consumption, terrain))"

subsection \<open>calculateRange\<close>

text \<open>The local constants of \<open>calculateRange\<close>, each as a function of what it reads.\<close>

definition cycleDegradation_of :: "jsnum \<Rightarrow> jsnum" where
  "cycleDegradation_of cycles =
     jadd (jmul (Num 0.0001) cycles) (jmul (Num 0.00000002) (jpow cycles 2))"

definition calendarDegradation_of :: "jsnum \<Rightarrow> jsnum" where
  "calendarDegradation_of years = jmul (Num 0.02) (jsqrt years)"

definition degradation_of :: "jsnum \<Rightarrow> jsnum \<Rightarrow> jsnum" where
  "degradation_of cycles years =
     jmax (Num 0.7)
       (jsub (Num 1) (jadd (cycleDegradation_of cycles) (calendarDegradation_of years)))"

definition tempFactor_of :: "jsnum \<Rightarrow> jsnum" where
  "tempFactor_of temp =
     jmax (Num 0.7) (jsub (Num 1.0) (jmul (Num 0.005) (jabs (jsub temp (Num 25)))))"

definition effectiveCapacity_of ::
  "jsnum \<Rightarrow> jsnum \<Rightarrow> jsnum \<Rightarrow> jsnum \<Rightarrow> jsnum \<Rightarrow> jsnum \<Rightarrow> jsnum
   \<Rightarrow> bool \<Rightarrow> jsnum \<Rightarrow> bool \<Rightarrow> jsnum \<Rightarrow> jsnum" where
  "effectiveCapacity_of soc_v capacity temp baseEff chargingDeg cycles years
       climateOn climateF regenOn regenF =
     (let effectiveClimateFactor = (if climateOn then climateF else Num 1.0);
          effectiveRegenFactor = (if regenOn then regenF else Num 1.0)
      in jmul (jmul (jmul (jmul (jmul (jmul (jmul capacity (jdiv soc_v (Num 100)))
                (degradation_of cycles years)) baseEff) chargingDeg)
                (tempFactor_of temp)) effectiveClimateFactor) effectiveRegenFactor)"

definition energyConsumption_of :: "jsnum \<Rightarrow> jsnum \<Rightarrow> jsnum" where
  "energyConsumption_of consumption terrain = jmul consumption terrain"

text \<open>\<open>Math.max(0, range)\<close>, the range before it is formatted.\<close>

definition range_of :: "jsnum \<Rightarrow> jsnum \<Rightarrow> jsnum" where
  "range_of effCap energy = jmax (Num 0) (jmul (jdiv effCap energy) (Num 100))"

record rangeResult =
  range_km :: jsnum
  effectiveCapacity :: jsnum
  cycleDegradation :: jsnum
  calendarDegradation :: jsnum
  totalDegradation :: jsnum
  tempFactor :: jsnum
  energyConsumption :: jsnum

definition calculateRange ::
  "jsnum \<Rightarrow> jsnum \<Rightarrow> jsnum \<Rightarrow> jsnum \<Rightarrow> jsnum \<Rightarrow> jsnum \<Rightarrow> jsnum \<Rightarrow> jsnum \<Rightarrow> jsnum
   \<Rightarrow> bool \<Rightarrow> jsnum \<Rightarrow> bool \<Rightarrow> jsnum \<Rightarrow> rangeResult" where
  "calculateRange soc_v capacity consumption temp baseEff chargingDeg cycles years terrain
       climateOn climateF regenOn regenF =
     (let effCap = effectiveCapacity_of soc_v capacity temp baseEff chargingDeg cycles years
                     climateOn climateF regenOn regenF;
          energy = energyConsumption_of consumption terrain
      in \<lparr> range_km = toFixed 1 (range_of effCap energy),
           effectiveCapacity = toFixed 2 effCap,
           cycleDegradation = toFixed 2 (jmul (cycleDegradation_of cycles) (Num 100)),
           calendarDegradation = toFixed 2 (jmul (calendarDegradation_of years) (Num 100)),
           totalDegradation =
             toFixed 2 (jmul (jsub (Num 1) (degradation_of cycles years)) (Num 100)),
           tempFactor = toFixed 3 (tempFactor_of temp),
           energyConsumption = toFixed 2 energy \<rparr>)"

subsection \<open>validateInputs\<close>

definition requiredFields :: "stateA \<Rightarrow> field list" where
  "requiredFields s =
     (if showAdvanced s
      then [soc s, batteryCapacity s, drivingConsumption s, temperature s, baseEfficiency s,
            chargingDegradation s, batteryAgeCycles s, batteryAgeYears s, terrainFactor s,
            climateFactor s, regenFactor s]
      else [soc s, batteryCapacity s, drivingConsumption s])"

definition validateInputs :: "stateA \<Rightarrow> bool" where
  "validateInputs s = list_all (\<lambda>val. val \<noteq> Empty \<and> \<not> isNaN (Number val)) (requiredFields s)"

subsection \<open>calculateStats\<close>

record breakdown =
  driving :: jsnum
  climate :: jsnum
  other :: jsnum

text \<open>
  The result of \<open>calculateStats\<close>: \<open>core\<close> holds the fields spread from \<open>stats\<close>,
  and each entry of \<open>rangeSensitivity\<close> is the pair \<open>(soc, range)\<close>.
\<close>

record statsResult =
  core :: rangeResult
  rangeSensitivity :: "(jsnum \<times> jsnum) list"
  consumptionBreakdown :: breakdown

definition socValues :: "jsnum list" where
  "socValues = [Num 10, Num 30, Num 50, Num 70, Num 90]"

definition calculateStats :: "stateA \<Rightarrow> statsResult" where
  "calculateStats s =
     (let (consumption, defaultTerrainFactor) = getDynamicDefaults (Number (batteryCapacity s));
          stats = calculateRange
            (Number (soc s)) (Number (batteryCapacity s))
            (if showAdvanced s then Number (drivingConsumption s) else consumption)
            (if showAdvanced s then Number (temperature s) else Num 25)
            (if showAdvanced s then Number (baseEfficiency s) else Num 0.98)
            (if showAdvanced s then Number (chargingDegradation s) else Num 0.98)
            (if showAdvanced s then Number (batteryAgeCycles s) else Num 100)
            (if showAdvanced s then Number (batteryAgeYears s) else Num 2)
            (if showAdvanced s then Number (terrainFactor s) else defaultTerrainFactor)
            (if showAdvanced s then climateControl s else False)
            (if showAdvanced s then Number (climateFactor s) else Num 0.85)
            (if showAdvanced s then regenBraking s else True)
            (if showAdvanced s then Number (regenFactor s) else Num 1.05);
          sensitivity = map (\<lambda>v. (v, range_km (calculateRange
            v (Number (batteryCapacity s))
            (if showAdvanced s then Number (drivingConsumption s) else consumption)
            (if showAdvanced s then Number (temperature s) else Num 25)
            (if showAdvanced s then Number (baseEfficiency s) else Num 0.98)
            (if showAdvanced s then Number (chargingDegradation s) else Num 0.98)
            (if showAdvanced s then Number (batteryAgeCycles s) else Num 100)
            (if showAdvanced s then Number (batteryAgeYears s) else Num 2)
            (if showAdvanced s then Number (terrainFactor s) else defaultTerrainFactor)
            (if showAdvanced s then climateControl s else False)
            (if showAdvanced s then Number (climateFactor s) else Num 0.85)
            (if showAdvanced s then regenBraking s else True)
            (if showAdvanced s then Number (regenFactor s) else Num 1.05)))) socValues;
          driving_v = toFixed 2 (jmul (Number (drivingConsumption s)) (Number (terrainFactor s)));
          climate_v = (if climateControl s
                       then toFixed 2 (jmul (Number (drivingConsumption s))
                                        (jsub (Num 1) (Number (climateFactor s))))
                       else Num 0);
          other_v = toFixed 2 (jmul (Number (drivingConsumption s)) (Num 0.1))
      in \<lparr> core = stats, rangeSensitivity = sensitivity,
           consumptionBreakdown = \<lparr> driving = driving_v, climate = climate_v, other = other_v \<rparr> \<rparr>)"

subsection \<open>Recomputation\<close>

text \<open>
  The effect that follows every change of an input, as the debounced handler leaves the
  state once it has run, and the handler of the Calculate button (its notification is
  not part of the state). \<open>predictedRange\<close> is \<open>None\<close> for \<open>null\<close>.
\<close>

definition rangeEffect :: "stateA \<Rightarrow> stateA" where
  "rangeEffect s =
     (if \<not> calculationTriggered s then s
      else if validateInputs s
        then s\<lparr>predictedRange := Some (range_km (core (calculateStats s)))\<rparr>
        else s\<lparr>predictedRange := None\<rparr>)"

definition handleCalculate :: "stateA \<Rightarrow> stateA" where
  "handleCalculate s =
     (let s1 = s\<lparr>calculationTriggered := True\<rparr>
      in if validateInputs s
         then s1\<lparr>predictedRange := Some (range_km (core (calculateStats s)))\<rparr>
         else s1)"

text \<open>
  What can happen to the state: a setter of one of the state hooks is called (by an
  input widget, a switch, a select or the advanced-options button), the Calculate button
  is pressed, or the effect runs.
\<close>

datatype event =
    SetSoc field | SetBatteryCapacity field | SetDrivingConsumption field
  | SetShowAdvanced bool | SetTemperature field | SetBaseEfficiency field
  | SetChargingDegradation field | SetBatteryAgeCycles field | SetBatteryAgeYears field
  | SetTerrainFactor field | SetClimateControl bool | SetClimateFactor field
  | SetRegenBraking bool | SetRegenFactor field
  | Calculate | Effect

fun step :: "stateA \<Rightarrow> event \<Rightarrow> stateA" where
  "step s (SetSoc v) = s\<lparr>soc := v\<rparr>"
| "step s (SetBatteryCapacity v) = s\<lparr>batteryCapacity := v\<rparr>"
| "step s (SetDrivingConsumption v) = s\<lparr>drivingConsumption := v\<rparr>"
| "step s (SetShowAdvanced b) = s\<lparr>showAdvanced := b\<rparr>"
| "step s (SetTemperature v) = s\<lparr>temperature := v\<rparr>"
| "step s (SetBaseEfficiency v) = s\<lparr>baseEfficiency := v\<rparr>"
| "step s (SetChargingDegradation v) = s\<lparr>chargingDegradation := v\<rparr>"
| "step s (SetBatteryAgeCycles v) = s\<lparr>batteryAgeCycles := v\<rparr>"
| "step s (SetBatteryAgeYears v) = s\<lparr>batteryAgeYears := v\<rparr>"
| "step s (SetTerrainFactor v) = s\<lparr>terrainFactor := v\<rparr>"
| "step s (SetClimateControl b) = s\<lparr>climateControl := b\<rparr>"
| "step s (SetClimateFactor v) = s\<lparr>climateFactor := v\<rparr>"
| "step s (SetRegenBraking b) = s\<lparr>regenBraking := b\<rparr>"
| "step s (SetRegenFactor v) = s\<lparr>regenFactor := v\<rparr>"
| "step s Calculate = handleCalculate s"
| "step s Effect = rangeEffect s"

definition run :: "event list \<Rightarrow> stateA" where
  "run evs = foldl step initialA evs"

text \<open>
  The bounds that the input widgets of the form give to \<open>commitValue\<close>
  (their \<open>min\<close> and \<open>max\<close> attributes).
\<close>

fun inBounds :: "real \<Rightarrow> real \<Rightarrow> field \<Rightarrow> bool" where
  "inBounds lo hi (Text (Num x)) = (lo \<le> x \<and> x \<le> hi)"
| "inBounds lo hi _ = False"


text \<open>
  The regression fixture: a fresh form with 80 percent charge, a 60 kWh battery and a
  consumption of 16 kWh per 100 km typed in, the advanced options hidden and at their
  defaults.
\<close>

definition fixtureA :: stateA where
  "fixtureA = initialA\<lparr>soc := Text (Num 80), batteryCapacity := Text (Num 60),
                        drivingConsumption := Text (Num 16)\<rparr>"

subsection \<open>The reference formula\<close>

text \<open>
  The nine steps of the specification's reference formula for this calculator, in its
  words and its order. The record keeps the values of the steps the specification
  returns, before any formatting. It is compared with \<open>calculateRange\<close> below.
\<close>

record referenceSteps =
  ref_cycleDegradation :: jsnum
  ref_calendarDegradation :: jsnum
  ref_degradation :: jsnum
  ref_tempFactor :: jsnum
  ref_effectiveCapacity :: jsnum
  ref_energyConsumption :: jsnum
  ref_range :: jsnum

definition spec_computeRange ::
  "jsnum \<Rightarrow> jsnum \<Rightarrow> jsnum \<Rightarrow> jsnum \<Rightarrow> jsnum \<Rightarrow> jsnum \<Rightarrow> jsnum \<Rightarrow> jsnum \<Rightarrow> jsnum
   \<Rightarrow> bool \<Rightarrow> jsnum \<Rightarrow> bool \<Rightarrow> jsnum \<Rightarrow> referenceSteps" where
  "spec_computeRange soc_v capacity consumption temp baseEff chargingDeg cycles years terrain
       climateOn climateF regenOn regenF =
     (let step1 = jadd (jmul (Num 0.0001) cycles) (jmul (Num 0.00000002) (jpow cycles 2));
          step2 = jmul (Num 0.02) (jsqrt years);
          step3 = jmax (Num 0.7) (jsub (Num 1) (jadd step1 step2));
          step4 = jmax (Num 0.7) (jsub (Num 1) (jmul (Num 0.005) (jabs (jsub temp (Num 25)))));
          step5 = (if climateOn then climateF else Num 1.0);
          step6 = (if regenOn then regenF else Num 1.0);
          step7 = jmul (jmul (jmul (jmul (jmul (jmul (jmul capacity (jdiv soc_v (Num 100)))
                    step3) baseEff) chargingDeg) step4) step5) step6;
          step8 = jmul consumption terrain;
          step9 = jmax (Num 0) (jmul (jdiv step7 step8) (Num 100))
      in \<lparr> ref_cycleDegradation = step1, ref_calendarDegradation = step2,
           ref_degradation = step3, ref_tempFactor = step4, ref_effectiveCapacity = step7,
           ref_energyConsumption = step8, ref_range = step9 \<rparr>)"

text \<open>
  What the specification returns from the steps: the range to 1 decimal, the effective
  capacity to 2, the three degradations as percentages to 2, the temperature factor to 3
  and the energy consumption to 2. The decimals are those of \<open>toFixed\<close>, the formatting
  of the code.
\<close>

definition spec_return :: "referenceSteps \<Rightarrow> rangeResult" where
  "spec_return r =
     \<lparr> range_km = toFixed 1 (ref_range r),
       effectiveCapacity = toFixed 2 (ref_effectiveCapacity r),
       cycleDegradation = toFixed 2 (jmul (ref_cycleDegradation r) (Num 100)),
       calendarDegradation = toFixed 2 (jmul (ref_calendarDegradation r) (Num 100)),
       totalDegradation = toFixed 2 (jmul (jsub (Num 1) (ref_degradation r)) (Num 100)),
       tempFactor = toFixed 3 (ref_tempFactor r),
       energyConsumption = toFixed 2 (ref_energyConsumption r) \<rparr>"

text \<open>
  The declared domains of the inputs of \<open>calculateRange\<close>, the bounds of the input
  widgets again, on the numbers themselves.
\<close>

definition argsInBounds ::
  "real \<Rightarrow> real \<Rightarrow> real \<Rightarrow> real \<Rightarrow> real \<Rightarrow> real \<Rightarrow> real \<Rightarrow> real \<Rightarrow> real \<Rightarrow> real \<Rightarrow> real
   \<Rightarrow> bool" where
  "argsInBounds a cap dc t be cd c y tf cf rf =
     (0 \<le> a \<and> a \<le> 100 \<and> 10 \<le> cap \<and> cap \<le> 200 \<and> 5 \<le> dc \<and> dc \<le> 50
      \<and> - 20 \<le> t \<and> t \<le> 50 \<and> 0.5 \<le> be \<and> be \<le> 1 \<and> 0.5 \<le> cd \<and> cd \<le> 1
      \<and> 0 \<le> c \<and> c \<le> 2000 \<and> 0 \<le> y \<and> y \<le> 20 \<and> 1 \<le> tf \<and> tf \<le> 2
      \<and> 0.5 \<le> cf \<and> cf \<le> 1 \<and> 1 \<le> rf \<and> rf \<le> 1.5)"

subsection \<open>The results panel\<close>

text \<open>
  What the component renders below the form. The panel is shown when
  \<open>calculationTriggered && predictedRange\<close> holds (a formatted range is never the empty
  string, so \<open>predictedRange\<close> is truthy exactly when it is not \<open>null\<close>); it shows the
  predicted range of the state and the statistics of a call of \<open>calculateStats\<close> made
  during the render, on the fields as they are at that moment.
\<close>

definition renderResults :: "stateA \<Rightarrow> (jsnum \<times> statsResult) option" where
  "renderResults s =
     (if calculationTriggered s
      then (case predictedRange s of
              None \<Rightarrow> None
            | Some r \<Rightarrow> Some (r, calculateStats s))
      else None)"

text \<open>
  The state of the form after the fixture is typed in, Calculate is pressed and the
  capacity field is then cleared, before the effect for that change has run.
\<close>

definition clearedCapacityA :: stateA where
  "clearedCapacityA =
     run [SetSoc (Text (Num 80)), SetBatteryCapacity (Text (Num 60)),
          SetDrivingConsumption (Text (Num 16)), Calculate, SetBatteryCapacity Empty]"

text \<open>
  For finite inputs, the product of the factors of the effective capacity other than the
  battery capacity and the state of charge (an abbreviation used in the proofs).
\<close>

definition otherFactors ::
  "real \<Rightarrow> real \<Rightarrow> real \<Rightarrow> real \<Rightarrow> real \<Rightarrow> bool \<Rightarrow> real \<Rightarrow> bool \<Rightarrow> real \<Rightarrow> real" where
  "otherFactors t be cd c y con cf ron rf =
     max 0.7 (1 - (0.0001 * c + 0.00000002 * c\<^sup>2 + 0.02 * sqrt y)) * be * cd
     * max 0.7 (1 - 0.005 * \<bar>t - 25\<bar>) * (if con then cf else 1) * (if ron then rf else 1)"

section \<open>The EPA model (second calculator)\<close>

datatype ClimateUsage = Low | Medium | High

datatype TerrainType = Flat | Hilly | Mountain

record Factors =
  f_temperature :: jsnum
  f_speed :: jsnum
  f_climate :: jsnum
  f_terrain :: jsnum

text \<open>
  The inputs of the second calculator are kept as numbers. The fields carry the suffix
  \<open>B\<close> where the first calculator has a field of the same name.
\<close>

record inputsB =
  batteryCapacityB :: jsnum
  epaRange :: jsnum
  currentCharge :: jsnum
  temperatureB :: jsnum
  avgSpeed :: jsnum
  climateUsage :: ClimateUsage
  terrainType :: TerrainType

record outputsB =
  factors :: Factors
  estimatedRange :: jsnum
  efficiency :: jsnum

definition temperatureFactor :: "jsnum \<Rightarrow> jsnum" where
  "temperatureFactor temp = jsub (Num 1) (jmul (jabs (jsub temp (Num 70))) (Num 0.015))"

definition speedFactor :: "jsnum \<Rightarrow> jsnum" where
  "speedFactor speed =
     jsub (Num 1) (jmul (jpow (jmax (Num 0) (jsub speed (Num 25))) 2) (Num 0.0008))"

fun climateFactorB :: "ClimateUsage \<Rightarrow> jsnum" where
  "climateFactorB Low = Num 0.95"
| "climateFactorB Medium = Num 0.85"
| "climateFactorB High = Num 0.75"

fun terrainFactorB :: "TerrainType \<Rightarrow> jsnum" where
  "terrainFactorB Hilly = Num 0.9"
| "terrainFactorB Mountain = Num 0.8"
| "terrainFactorB _ = Num 1"

definition newEstimatedRange :: "inputsB \<Rightarrow> jsnum" where
  "newEstimatedRange i =
     jmul (jmul (jmul (jmul (jmul (epaRange i) (jdiv (currentCharge i) (Num 100)))
       (temperatureFactor (temperatureB i))) (speedFactor (avgSpeed i)))
       (climateFactorB (climateUsage i))) (terrainFactorB (terrainType i))"

definition newEfficiency :: "inputsB \<Rightarrow> jsnum" where
  "newEfficiency i =
     (if truthy (batteryCapacityB i)
      then jdiv (newEstimatedRange i)
             (jmul (batteryCapacityB i) (jdiv (currentCharge i) (Num 100)))
      else Num 0)"

text \<open>The effect of the second calculator: the three state values it sets.\<close>

definition estimateEffect :: "inputsB \<Rightarrow> outputsB" where
  "estimateEffect i =
     \<lparr> factors = \<lparr> f_temperature = temperatureFactor (temperatureB i),
                    f_speed = speedFactor (avgSpeed i),
                    f_climate = climateFactorB (climateUsage i),
                    f_terrain = terrainFactorB (terrainType i) \<rparr>,
       estimatedRange = newEstimatedRange i,
       efficiency = newEfficiency i \<rparr>"

section \<open>Arithmetic on finite numbers\<close>

lemma jsub_Num [simp]: "jsub (Num x) (Num y) = Num (x - y)"
  by (simp add: jsub_def)

lemma jmax_Num [simp]: "jmax (Num x) (Num y) = Num (max x y)"
  by (simp add: jmax_def max_def)

lemma jgt_Num [simp]: "jgt (Num x) (Num y) = (y < x)"
  by (simp add: jgt_def)

lemma jle_Num [simp]: "jle (Num x) (Num y) = (x \<le> y)"
  by (simp add: not_less)

lemma jpow_Num [simp]: "jpow (Num x) n = Num (x ^ n)"
  by (cases n) simp_all

section \<open>Properties of the EPA model\<close>

lemma temperatureFactor_Num: "temperatureFactor (Num t) = Num (1 - \<bar>t - 70\<bar> * 0.015)"
  by (simp add: temperatureFactor_def)

lemma speedFactor_Num: "speedFactor (Num v) = Num (1 - (max 0 (v - 25))\<^sup>2 * 0.0008)"
  by (simp add: speedFactor_def)

lemma newEstimatedRange_Num:
  "newEstimatedRange \<lparr> batteryCapacityB = b, epaRange = Num e, currentCharge = Num c,
       temperatureB = Num t, avgSpeed = Num v, climateUsage = u, terrainType = tt \<rparr>
   = Num (e * (c / 100) * (1 - \<bar>t - 70\<bar> * 0.015) * (1 - (max 0 (v - 25))\<^sup>2 * 0.0008)
          * (case u of Low \<Rightarrow> 0.95 | Medium \<Rightarrow> 0.85 | High \<Rightarrow> 0.75)
          * (case tt of Hilly \<Rightarrow> 0.9 | Mountain \<Rightarrow> 0.8 | Flat \<Rightarrow> 1))"
  by (cases u; cases tt; simp add: newEstimatedRange_def temperatureFactor_Num speedFactor_Num)

text \<open>
  Claim C8. At 70 degrees Fahrenheit, 25 mph, medium climate usage, flat terrain, an EPA
  range of 330 miles and 80 percent charge, the estimated range is 224.4 miles, whatever
  the battery capacity; the temperature factor and the speed factor are both 1 there.
\<close>

theorem epa_reference_range:
  "estimatedRange (estimateEffect \<lparr> batteryCapacityB = b, epaRange = Num 330,
       currentCharge = Num 80, temperatureB = Num 70, avgSpeed = Num 25,
       climateUsage = Medium, terrainType = Flat \<rparr>) = Num 224.4
   \<and> temperatureFactor (Num 70) = Num 1 \<and> speedFactor (Num 25) = Num 1"
  by (simp add: estimateEffect_def newEstimatedRange_Num temperatureFactor_Num speedFactor_Num)


text \<open>
  Claim C9. With a battery capacity \<open>b\<close> other than zero, the efficiency is the quotient
  of the estimated range by \<open>b \<cdot> (charge / 100)\<close>, a quotient of reals when the charge is
  not zero either; with a battery capacity of zero it is 0, and no division takes place.
\<close>

theorem epa_efficiency_guard:
  "(b \<noteq> 0 \<longrightarrow>
      efficiency (estimateEffect (i\<lparr>batteryCapacityB := Num b\<rparr>))
      = jdiv (estimatedRange (estimateEffect (i\<lparr>batteryCapacityB := Num b\<rparr>)))
          (jmul (Num b) (jdiv (currentCharge i) (Num 100))))
   \<and> (b \<noteq> 0 \<and> c \<noteq> 0
        \<and> estimatedRange
             (estimateEffect (i\<lparr>batteryCapacityB := Num b, currentCharge := Num c\<rparr>)) = Num r
      \<longrightarrow> efficiency (estimateEffect (i\<lparr>batteryCapacityB := Num b, currentCharge := Num c\<rparr>))
          = Num (r / (b * (c / 100))))
   \<and> efficiency (estimateEffect (i\<lparr>batteryCapacityB := Num 0\<rparr>)) = Num 0"
  by (simp add: estimateEffect_def newEfficiency_def newEstimatedRange_def)

theorem epa_efficiency_guard_witness:
  "efficiency (estimateEffect \<lparr> batteryCapacityB = Num 75, epaRange = Num 330,
       currentCharge = Num 80, temperatureB = Num 70, avgSpeed = Num 25,
       climateUsage = Medium, terrainType = Flat \<rparr>) = Num 3.74
   \<and> efficiency (estimateEffect \<lparr> batteryCapacityB = Num 0, epaRange = Num 330,
       currentCharge = Num 80, temperatureB = Num 70, avgSpeed = Num 25,
       climateUsage = Medium, terrainType = Flat \<rparr>) = Num 0"
  using epa_efficiency_guard [of 75 "\<lparr> batteryCapacityB = Num 0, epaRange = Num 330,
       currentCharge = Num 80, temperatureB = Num 70, avgSpeed = Num 25,
       climateUsage = Medium, terrainType = Flat \<rparr>" 80 "224.4"]
  by (simp add: estimateEffect_def newEstimatedRange_Num)

text \<open>
  Claim C10. The guard of the efficiency reads the battery capacity alone. With a positive
  capacity and a charge of 0 the divisor \<open>capacity \<cdot> (charge / 100)\<close> is zero, the division
  is carried out all the same, and the efficiency is \<open>NaN\<close>; with a capacity of zero
  and the same charge it is 0.
\<close>

theorem epa_efficiency_nan_at_zero_charge:
  "0 < b \<Longrightarrow>
     truthy (Num b)
   \<and> jmul (Num b) (jdiv (Num 0) (Num 100)) = Num 0
   \<and> efficiency (estimateEffect \<lparr> batteryCapacityB = Num b, epaRange = Num e,
         currentCharge = Num 0, temperatureB = Num t, avgSpeed = Num v,
         climateUsage = u, terrainType = tt \<rparr>) = NaN
   \<and> efficiency (estimateEffect \<lparr> batteryCapacityB = Num 0, epaRange = Num e,
         currentCharge = Num 0, temperatureB = Num t, avgSpeed = Num v,
         climateUsage = u, terrainType = tt \<rparr>) = Num 0"
  by (simp add: estimateEffect_def newEfficiency_def newEstimatedRange_Num inf_of_sign_def)

theorem epa_efficiency_nan_at_zero_charge_witness:
  "(0::real) < 75
   \<and> efficiency (estimateEffect \<lparr> batteryCapacityB = Num 75, epaRange = Num 330,
         currentCharge = Num 0, temperatureB = Num 70, avgSpeed = Num 65,
         climateUsage = Medium, terrainType = Flat \<rparr>) = NaN"
  using epa_efficiency_nan_at_zero_charge [of 75 330 70 65 Medium Flat]
  by simp

section \<open>Properties of the degradation model\<close>

subsection \<open>Evaluation on finite inputs\<close>

lemma sqrt2_bounds: "1.414 < sqrt 2 \<and> sqrt 2 < (1.415::real)"
proof
  show "1.414 < sqrt 2" by (rule real_less_rsqrt) (simp add: power2_eq_square)
  show "sqrt 2 < (1.415::real)" by (rule real_less_lsqrt) (simp_all add: power2_eq_square)
qed

lemma cycleDegradation_of_Num:
  "cycleDegradation_of (Num c) = Num (0.0001 * c + 0.00000002 * c\<^sup>2)"
  by (simp add: cycleDegradation_of_def)

lemma calendarDegradation_of_Num:
  "0 \<le> y \<Longrightarrow> calendarDegradation_of (Num y) = Num (0.02 * sqrt y)"
  by (simp add: calendarDegradation_of_def)

lemma degradation_of_Num:
  "0 \<le> y \<Longrightarrow> degradation_of (Num c) (Num y)
     = Num (max 0.7 (1 - (0.0001 * c + 0.00000002 * c\<^sup>2 + 0.02 * sqrt y)))"
  by (simp add: degradation_of_def cycleDegradation_of_Num calendarDegradation_of_Num)

lemma tempFactor_of_Num:
  "tempFactor_of (Num t) = Num (max 0.7 (1 - 0.005 * \<bar>t - 25\<bar>))"
  by (simp add: tempFactor_of_def)

lemma effectiveCapacity_of_Num:
  "0 \<le> y \<Longrightarrow>
   effectiveCapacity_of (Num a) (Num cap) (Num t) (Num be) (Num cd) (Num c) (Num y)
       con (Num cf) ron (Num rf)
   = Num (cap * (a / 100) * otherFactors t be cd c y con cf ron rf)"
  by (simp add: effectiveCapacity_of_def degradation_of_Num tempFactor_of_Num otherFactors_def)

lemma range_of_Num:
  "e \<noteq> 0 \<Longrightarrow> range_of (Num k) (Num e) = Num (max 0 (k / e * 100))"
  by (simp add: range_of_def)

lemma range_km_Num:
  "0 \<le> y \<Longrightarrow> dc * tf \<noteq> 0 \<Longrightarrow>
   range_km (calculateRange (Num a) (Num cap) (Num dc) (Num t) (Num be) (Num cd) (Num c) (Num y)
       (Num tf) con (Num cf) ron (Num rf))
   = toFixed 1 (Num (max 0 (cap * (a / 100) * otherFactors t be cd c y con cf ron rf / (dc * tf) * 100)))"
  by (simp add: calculateRange_def Let_def effectiveCapacity_of_Num energyConsumption_of_def range_of_Num)

lemma toFixed_value:
  "0 \<le> x \<Longrightarrow> x < 10 ^ 21 \<Longrightarrow> of_int n \<le> x * 10 ^ d + 1 / 2 \<Longrightarrow> x * 10 ^ d + 1 / 2 < of_int n + 1
   \<Longrightarrow> toFixed d (Num x) = Num (of_int n / 10 ^ d)"
  by (simp add: floor_unique)

lemma fixture_unrounded:
  "290.85 \<le> 60 * (80 / 100) * otherFactors 25 0.98 0.98 100 2 False 0.85 True 1.05 / (16 * 1) * 100
   \<and> 60 * (80 / 100) * otherFactors 25 0.98 0.98 100 2 False 0.85 True 1.05 / (16 * 1) * 100 < (290.95::real)"
proof -
  have "otherFactors 25 0.98 0.98 100 2 False 0.85 True 1.05
        = (0.9898 - 0.02 * sqrt 2) * 0.98 * 0.98 * 1.05"
    using sqrt2_bounds by (simp add: otherFactors_def max_def power2_eq_square)
  then show ?thesis using sqrt2_bounds by simp
qed

lemma fixture_range:
  "range_km (calculateRange (Num 80) (Num 60) (Num 16) (Num 25) (Num 0.98) (Num 0.98) (Num 100)
       (Num 2) (Num 1) False (Num 0.85) True (Num 1.05)) = Num 290.9"
proof -
  let ?x = "60 * (80 / 100) * otherFactors 25 0.98 0.98 100 2 False 0.85 True 1.05 / (16 * 1) * 100 :: real"
  have b: "290.85 \<le> ?x" "?x < 290.95" using fixture_unrounded by simp_all
  have "toFixed 1 (Num (max 0 ?x)) = Num (of_int 2909 / 10 ^ 1)"
  proof (rule toFixed_value)
    show "0 \<le> max 0 ?x" by simp
    show "max 0 ?x < 10 ^ 21" using b by simp
    show "of_int 2909 \<le> max 0 ?x * 10 ^ 1 + 1 / 2" using b by simp
    show "max 0 ?x * 10 ^ 1 + 1 / 2 < of_int 2909 + 1" using b by simp
  qed
  moreover have "range_km (calculateRange (Num 80) (Num 60) (Num 16) (Num 25) (Num 0.98) (Num 0.98) (Num 100)
       (Num 2) (Num 1) False (Num 0.85) True (Num 1.05)) = toFixed 1 (Num (max 0 ?x))"
    by (rule range_km_Num) simp_all
  ultimately show ?thesis by simp
qed

lemma getDynamicDefaults_Num:
  "getDynamicDefaults (Num c)
   = (if 75 < c then Num 18 else if c < 40 then Num 14 else Num 16,
      if 75 < c then Num 1.05 else Num 1)"
  by (simp add: getDynamicDefaults_def)

lemma calculateStats_simple:
  "\<not> showAdvanced s \<Longrightarrow>
   core (calculateStats s)
   = calculateRange (Number (soc s)) (Number (batteryCapacity s))
       (fst (getDynamicDefaults (Number (batteryCapacity s))))
       (Num 25) (Num 0.98) (Num 0.98) (Num 100) (Num 2)
       (snd (getDynamicDefaults (Number (batteryCapacity s))))
       False (Num 0.85) True (Num 1.05)"
  by (simp add: calculateStats_def Let_def split_beta)

lemma sensitivity_simple:
  "\<not> showAdvanced s \<Longrightarrow>
   rangeSensitivity (calculateStats s)
   = map (\<lambda>v. (v, range_km (calculateRange v (Number (batteryCapacity s))
       (fst (getDynamicDefaults (Number (batteryCapacity s))))
       (Num 25) (Num 0.98) (Num 0.98) (Num 100) (Num 2)
       (snd (getDynamicDefaults (Number (batteryCapacity s))))
       False (Num 0.85) True (Num 1.05)))) socValues"
  by (simp add: calculateStats_def Let_def split_beta)

lemma commitValue_result:
  "lo \<le> hi \<Longrightarrow>
   commitValue lo hi incomplete val = Empty \<or> commitValue lo hi incomplete val = Text NaN
   \<or> inBounds lo hi (commitValue lo hi incomplete val)"
proof (cases val)
  case Empty
  then show ?thesis by (simp add: commitValue_def)
next
  case (Text a)
  assume "lo \<le> hi"
  then show ?thesis using Text by (cases a) (auto simp add: commitValue_def Let_def jgt_def)
qed

subsection \<open>The regression fixture\<close>

lemma fixture_valid: "validateInputs fixtureA"
  by (simp add: validateInputs_def requiredFields_def fixtureA_def initialA_def)

lemma fixture_stats_range: "range_km (core (calculateStats fixtureA)) = Num 290.9"
proof -
  have "core (calculateStats fixtureA)
        = calculateRange (Num 80) (Num 60) (Num 16) (Num 25) (Num 0.98) (Num 0.98) (Num 100)
            (Num 2) (Num 1) False (Num 0.85) True (Num 1.05)"
    by (simp add: calculateStats_simple getDynamicDefaults_Num fixtureA_def initialA_def)
  then show ?thesis using fixture_range by simp
qed

text \<open>
  Claim C1, as the code has it. With 80 percent charge, a 60 kWh battery, a consumption
  of 16 kWh per 100 km, a terrain factor of 1.0 and every advanced parameter at its
  default, \<open>calculateRange\<close> returns the range 290.9 (the unrounded value lies between
  290.85 and 290.95); so do \<open>calculateStats\<close> and the Calculate button on the form
  filled with these values.
\<close>

theorem fixture_range_is_290_9:
  "range_km (calculateRange (Num 80) (Num 60) (Num 16) (Num 25) (Num 0.98) (Num 0.98) (Num 100)
       (Num 2) (Num 1.0) False (Num 0.85) True (Num 1.05)) = Num 290.9
   \<and> range_km (core (calculateStats fixtureA)) = Num 290.9
   \<and> predictedRange (handleCalculate fixtureA) = Some (Num 290.9)"
  using fixture_range fixture_stats_range fixture_valid by (simp add: handleCalculate_def)

text \<open>
  Claim C1, as the specification states it, fails: the range returned for the fixture is
  not 254.7, it is above 290.
\<close>

theorem fixture_range_is_not_254_7:
  "range_km (calculateRange (Num 80) (Num 60) (Num 16) (Num 25) (Num 0.98) (Num 0.98) (Num 100)
       (Num 2) (Num 1.0) False (Num 0.85) True (Num 1.05)) \<noteq> Num 254.7
   \<and> jlt (Num 290) (range_km (calculateRange (Num 80) (Num 60) (Num 16) (Num 25) (Num 0.98)
       (Num 0.98) (Num 100) (Num 2) (Num 1.0) False (Num 0.85) True (Num 1.05)))"
  using fixture_range by simp

subsection \<open>Capacity-derived defaults\<close>

text \<open>
  Claim C7. For a capacity \<open>c\<close>, the derived consumption is 18 if \<open>c > 75\<close>, 14 if
  \<open>c < 40\<close> and 16 otherwise, and the derived terrain factor is 1.05 if \<open>c > 75\<close> and
  1.0 otherwise. With the advanced options hidden, the statistics and every entry of the
  sensitivity table are computed by \<open>calculateRange\<close> on these two derived values and on
  the fixed defaults of the other advanced parameters.
\<close>

theorem dynamic_defaults_used_in_simple_mode:
  "getDynamicDefaults (Num c)
   = (if 75 < c then Num 18 else if c < 40 then Num 14 else Num 16,
      if 75 < c then Num 1.05 else Num 1.0)
   \<and> (\<not> showAdvanced s \<longrightarrow>
        core (calculateStats s)
        = calculateRange (Number (soc s)) (Number (batteryCapacity s))
            (fst (getDynamicDefaults (Number (batteryCapacity s))))
            (Num 25) (Num 0.98) (Num 0.98) (Num 100) (Num 2)
            (snd (getDynamicDefaults (Number (batteryCapacity s))))
            False (Num 0.85) True (Num 1.05)
      \<and> rangeSensitivity (calculateStats s)
        = map (\<lambda>v. (v, range_km (calculateRange v (Number (batteryCapacity s))
            (fst (getDynamicDefaults (Number (batteryCapacity s))))
            (Num 25) (Num 0.98) (Num 0.98) (Num 100) (Num 2)
            (snd (getDynamicDefaults (Number (batteryCapacity s))))
            False (Num 0.85) True (Num 1.05)))) socValues)"
  using calculateStats_simple [of s] sensitivity_simple [of s]
  by (simp add: getDynamicDefaults_Num)

theorem dynamic_defaults_used_in_simple_mode_witness:
  "\<not> showAdvanced fixtureA
   \<and> getDynamicDefaults (Num 60) = (Num 16, Num 1)
   \<and> getDynamicDefaults (Num 80) = (Num 18, Num 1.05)
   \<and> getDynamicDefaults (Num 30) = (Num 14, Num 1)
   \<and> core (calculateStats fixtureA)
     = calculateRange (Num 80) (Num 60) (Num 16) (Num 25) (Num 0.98) (Num 0.98) (Num 100)
         (Num 2) (Num 1) False (Num 0.85) True (Num 1.05)"
  using dynamic_defaults_used_in_simple_mode [of 60 fixtureA]
    dynamic_defaults_used_in_simple_mode [of 80 fixtureA]
    dynamic_defaults_used_in_simple_mode [of 30 fixtureA]
  by (simp add: fixtureA_def initialA_def)

subsection \<open>The consumption field in simple mode\<close>

text \<open>
  Claim C4. With the advanced options hidden, two states that differ only in the
  consumption field have the same statistics (the range among them) and the same
  sensitivity table, and the Calculate button leaves the same predicted range when both
  consumption values are present and numeric. Validation does require the field: a state
  that passes it has a consumption that is neither empty nor \<open>NaN\<close>. The field still
  reaches the consumption breakdown: its entry \<open>other\<close> is a tenth of the consumption.
\<close>

theorem simple_mode_ignores_consumption:
  "\<not> showAdvanced s \<Longrightarrow>
     core (calculateStats (s\<lparr>drivingConsumption := d1\<rparr>))
     = core (calculateStats (s\<lparr>drivingConsumption := d2\<rparr>))
   \<and> rangeSensitivity (calculateStats (s\<lparr>drivingConsumption := d1\<rparr>))
     = rangeSensitivity (calculateStats (s\<lparr>drivingConsumption := d2\<rparr>))
   \<and> (d1 \<noteq> Empty \<and> \<not> isNaN (Number d1) \<and> d2 \<noteq> Empty \<and> \<not> isNaN (Number d2) \<longrightarrow>
        predictedRange (handleCalculate (s\<lparr>drivingConsumption := d1\<rparr>))
        = predictedRange (handleCalculate (s\<lparr>drivingConsumption := d2\<rparr>)))
   \<and> (validateInputs (s\<lparr>drivingConsumption := d1\<rparr>) \<longrightarrow> d1 \<noteq> Empty \<and> \<not> isNaN (Number d1))
   \<and> other (consumptionBreakdown (calculateStats (s\<lparr>drivingConsumption := d1\<rparr>)))
     = toFixed 2 (jmul (Number d1) (Num 0.1))"
proof -
  assume a: "\<not> showAdvanced s"
  have c: "core (calculateStats (s\<lparr>drivingConsumption := d1\<rparr>))
     = core (calculateStats (s\<lparr>drivingConsumption := d2\<rparr>))"
    using a by (simp add: calculateStats_simple)
  have r: "rangeSensitivity (calculateStats (s\<lparr>drivingConsumption := d1\<rparr>))
     = rangeSensitivity (calculateStats (s\<lparr>drivingConsumption := d2\<rparr>))"
    using a by (simp add: sensitivity_simple)
  have v: "validateInputs (s\<lparr>drivingConsumption := d\<rparr>)
      = (soc s \<noteq> Empty \<and> \<not> isNaN (Number (soc s)) \<and> batteryCapacity s \<noteq> Empty
         \<and> \<not> isNaN (Number (batteryCapacity s)) \<and> d \<noteq> Empty \<and> \<not> isNaN (Number d))" for d
    using a by (simp add: validateInputs_def requiredFields_def)
  have p: "d1 \<noteq> Empty \<and> \<not> isNaN (Number d1) \<and> d2 \<noteq> Empty \<and> \<not> isNaN (Number d2) \<longrightarrow>
        predictedRange (handleCalculate (s\<lparr>drivingConsumption := d1\<rparr>))
        = predictedRange (handleCalculate (s\<lparr>drivingConsumption := d2\<rparr>))"
    using c by (simp add: handleCalculate_def Let_def v)
  have o: "other (consumptionBreakdown (calculateStats (s\<lparr>drivingConsumption := d1\<rparr>)))
     = toFixed 2 (jmul (Number d1) (Num 0.1))"
    by (simp add: calculateStats_def Let_def split_beta)
  show ?thesis using c r p o v by simp
qed

theorem simple_mode_ignores_consumption_witness:
  "\<not> showAdvanced fixtureA
   \<and> core (calculateStats (fixtureA\<lparr>drivingConsumption := Text (Num 5)\<rparr>))
     = core (calculateStats (fixtureA\<lparr>drivingConsumption := Text (Num 50)\<rparr>))
   \<and> rangeSensitivity (calculateStats (fixtureA\<lparr>drivingConsumption := Text (Num 5)\<rparr>))
     = rangeSensitivity (calculateStats (fixtureA\<lparr>drivingConsumption := Text (Num 50)\<rparr>))
   \<and> predictedRange (handleCalculate (fixtureA\<lparr>drivingConsumption := Text (Num 5)\<rparr>))
     = predictedRange (handleCalculate (fixtureA\<lparr>drivingConsumption := Text (Num 50)\<rparr>))
   \<and> other (consumptionBreakdown (calculateStats (fixtureA\<lparr>drivingConsumption := Text (Num 5)\<rparr>)))
     = Num 0.5
   \<and> other (consumptionBreakdown (calculateStats (fixtureA\<lparr>drivingConsumption := Text (Num 50)\<rparr>)))
     = Num 5"
proof -
  have h: "\<not> showAdvanced fixtureA" by (simp add: fixtureA_def initialA_def)
  show ?thesis
    using h simple_mode_ignores_consumption [OF h, of "Text (Num 5)" "Text (Num 50)"]
      simple_mode_ignores_consumption [OF h, of "Text (Num 50)" "Text (Num 5)"]
    by simp
qed

subsection \<open>Agreement with the reference formula\<close>

lemma calculateRange_eq_spec:
  "calculateRange soc_v capacity consumption temp baseEff chargingDeg cycles years terrain
       climateOn climateF regenOn regenF
   = spec_return (spec_computeRange soc_v capacity consumption temp baseEff chargingDeg
       cycles years terrain climateOn climateF regenOn regenF)"
  by (simp add: calculateRange_def spec_computeRange_def spec_return_def Let_def
        effectiveCapacity_of_def energyConsumption_of_def range_of_def degradation_of_def
        tempFactor_of_def cycleDegradation_of_def calendarDegradation_of_def)

lemma degradation_eq_spec:
  "degradation_of cycles years
   = ref_degradation (spec_computeRange soc_v capacity consumption temp baseEff chargingDeg
       cycles years terrain climateOn climateF regenOn regenF)"
  by (simp add: spec_computeRange_def Let_def degradation_of_def cycleDegradation_of_def
        calendarDegradation_of_def)

lemma jmax_floor: "isNaN (jmax (Num k) z) \<or> jle (Num k) (jmax (Num k) z)"
  by (cases z) (simp_all add: jmax_def)

lemma toFixed_nonneg_real:
  "0 \<le> x \<Longrightarrow> \<exists>r. toFixed d (Num x) = Num r \<and> 0 \<le> r"
  by simp

lemma toFixed_nonneg: "jle (Num 0) a \<Longrightarrow> jle (Num 0) (toFixed d a)"
proof (cases a)
  case (Num x)
  assume "jle (Num 0) a"
  with Num have "0 \<le> x" by simp
  then obtain r where "toFixed d (Num x) = Num r" "0 \<le> r"
    using toFixed_nonneg_real by blast
  with Num show ?thesis by simp
qed simp_all

lemma toFixed_isNaN: "isNaN (toFixed d a) = isNaN a"
  by (cases a) simp_all

lemma range_km_nonneg_or_NaN:
  "isNaN (range_km (calculateRange soc_v capacity consumption temp baseEff chargingDeg cycles
       years terrain climateOn climateF regenOn regenF))
   \<or> jle (Num 0) (range_km (calculateRange soc_v capacity consumption temp baseEff chargingDeg
       cycles years terrain climateOn climateF regenOn regenF))"
proof -
  obtain z where z: "range_km (calculateRange soc_v capacity consumption temp baseEff
       chargingDeg cycles years terrain climateOn climateF regenOn regenF)
     = toFixed 1 (jmax (Num 0) z)"
    by (simp add: calculateRange_def Let_def range_of_def)
  from jmax_floor [of 0 z] show ?thesis
  proof
    assume "isNaN (jmax (Num 0) z)"
    then show ?thesis by (simp only: z toFixed_isNaN) simp
  next
    assume "jle (Num 0) (jmax (Num 0) z)"
    then have "jle (Num 0) (toFixed 1 (jmax (Num 0) z))" by (rule toFixed_nonneg)
    then show ?thesis by (simp only: z) simp
  qed
qed

lemma range_km_finite:
  assumes "0 \<le> y" and "dc * tf \<noteq> 0"
  shows "\<exists>r. range_km (calculateRange (Num a) (Num cap) (Num dc) (Num t) (Num be) (Num cd)
          (Num c) (Num y) (Num tf) con (Num cf) ron (Num rf)) = Num r \<and> 0 \<le> r"
proof -
  let ?x = "max 0 (cap * (a / 100) * otherFactors t be cd c y con cf ron rf / (dc * tf) * 100)"
  have "0 \<le> ?x" by simp
  then obtain r where "toFixed 1 (Num ?x) = Num r" "0 \<le> r"
    using toFixed_nonneg_real by blast
  then show ?thesis using range_km_Num [OF assms] by simp
qed

lemma degradation_finite:
  assumes "0 \<le> y"
  shows "\<exists>d. degradation_of (Num c) (Num y) = Num d \<and> 0.7 \<le> d"
proof (intro exI conjI)
  show "degradation_of (Num c) (Num y)
        = Num (max 0.7 (1 - (0.0001 * c + 0.00000002 * c\<^sup>2 + 0.02 * sqrt y)))"
    using assms by (rule degradation_of_Num)
  show "0.7 \<le> max 0.7 (1 - (0.0001 * c + 0.00000002 * c\<^sup>2 + 0.02 * sqrt y))"
    by (rule max.cobounded1)
qed

lemma range_km_in_bounds:
  assumes "argsInBounds a cap dc t be cd c y tf cf rf"
  shows "jle (Num 0) (range_km (calculateRange (Num a) (Num cap) (Num dc) (Num t) (Num be)
           (Num cd) (Num c) (Num y) (Num tf) con (Num cf) ron (Num rf)))"
proof -
  have y: "0 \<le> y" and nz: "dc * tf \<noteq> 0" using assms by (simp_all add: argsInBounds_def)
  obtain r where "range_km (calculateRange (Num a) (Num cap) (Num dc) (Num t) (Num be)
           (Num cd) (Num c) (Num y) (Num tf) con (Num cf) ron (Num rf)) = Num r" "0 \<le> r"
    using range_km_finite [OF y nz] by blast
  then show ?thesis by simp
qed

lemma degradation_in_bounds:
  assumes "argsInBounds a cap dc t be cd c y tf cf rf"
  shows "jle (Num 0.7) (degradation_of (Num c) (Num y))"
proof -
  have "0 \<le> y" using assms by (simp add: argsInBounds_def)
  then obtain d where "degradation_of (Num c) (Num y) = Num d" "0.7 \<le> d"
    using degradation_finite by blast
  then show ?thesis by simp
qed

text \<open>
  Claim C3, as the code has it. For all inputs, \<open>calculateRange\<close> returns the values of
  the nine steps of the reference formula, formatted by \<open>toFixed\<close> to the decimals the
  specification lists, and its degradation is the third step. The returned range is at
  least 0 unless it is \<open>NaN\<close>, and the degradation is at least 0.7 unless it is \<open>NaN\<close>.
  For inputs inside the declared domains neither is \<open>NaN\<close>: the returned range is at
  least 0 and the degradation at least 0.7.
\<close>

theorem calculateRange_meets_reference_formula:
  "calculateRange soc_v capacity consumption temp baseEff chargingDeg cycles years terrain
       climateOn climateF regenOn regenF
   = spec_return (spec_computeRange soc_v capacity consumption temp baseEff chargingDeg
       cycles years terrain climateOn climateF regenOn regenF)
   \<and> degradation_of cycles years
     = ref_degradation (spec_computeRange soc_v capacity consumption temp baseEff chargingDeg
         cycles years terrain climateOn climateF regenOn regenF)
   \<and> (isNaN (range_km (calculateRange soc_v capacity consumption temp baseEff chargingDeg cycles
         years terrain climateOn climateF regenOn regenF))
      \<or> jle (Num 0) (range_km (calculateRange soc_v capacity consumption temp baseEff
         chargingDeg cycles years terrain climateOn climateF regenOn regenF)))
   \<and> (isNaN (degradation_of cycles years) \<or> jle (Num 0.7) (degradation_of cycles years))
   \<and> (argsInBounds a cap dc t be cd c y tf cf rf \<longrightarrow>
        jle (Num 0) (range_km (calculateRange (Num a) (Num cap) (Num dc) (Num t) (Num be)
          (Num cd) (Num c) (Num y) (Num tf) con (Num cf) ron (Num rf)))
      \<and> jle (Num 0.7) (degradation_of (Num c) (Num y)))"
proof (intro conjI impI)
  show "calculateRange soc_v capacity consumption temp baseEff chargingDeg cycles years terrain
       climateOn climateF regenOn regenF
   = spec_return (spec_computeRange soc_v capacity consumption temp baseEff chargingDeg
       cycles years terrain climateOn climateF regenOn regenF)"
    by (rule calculateRange_eq_spec)
  show "degradation_of cycles years
     = ref_degradation (spec_computeRange soc_v capacity consumption temp baseEff chargingDeg
         cycles years terrain climateOn climateF regenOn regenF)"
    by (rule degradation_eq_spec)
  show "isNaN (range_km (calculateRange soc_v capacity consumption temp baseEff chargingDeg cycles
         years terrain climateOn climateF regenOn regenF))
      \<or> jle (Num 0) (range_km (calculateRange soc_v capacity consumption temp baseEff
         chargingDeg cycles years terrain climateOn climateF regenOn regenF))"
    by (rule range_km_nonneg_or_NaN)
  show "isNaN (degradation_of cycles years) \<or> jle (Num 0.7) (degradation_of cycles years)"
    unfolding degradation_of_def by (rule jmax_floor)
next
  assume b: "argsInBounds a cap dc t be cd c y tf cf rf"
  show "jle (Num 0) (range_km (calculateRange (Num a) (Num cap) (Num dc) (Num t) (Num be)
          (Num cd) (Num c) (Num y) (Num tf) con (Num cf) ron (Num rf)))"
    using b by (rule range_km_in_bounds)
  show "jle (Num 0.7) (degradation_of (Num c) (Num y))"
    using b by (rule degradation_in_bounds)
qed

theorem calculateRange_meets_reference_formula_witness:
  "argsInBounds 80 60 16 25 0.98 0.98 100 2 1 0.85 1.05
   \<and> jle (Num 0) (range_km (calculateRange (Num 80) (Num 60) (Num 16) (Num 25) (Num 0.98)
       (Num 0.98) (Num 100) (Num 2) (Num 1) False (Num 0.85) True (Num 1.05)))
   \<and> jle (Num 0.7) (degradation_of (Num 100) (Num 2))"
proof -
  have h: "argsInBounds 80 60 16 25 0.98 0.98 100 2 1 0.85 1.05"
    by (simp add: argsInBounds_def)
  show ?thesis
    using h calculateRange_meets_reference_formula
      [where soc_v = "Num 80" and capacity = "Num 60" and consumption = "Num 16"
         and temp = "Num 25" and baseEff = "Num 0.98" and chargingDeg = "Num 0.98"
         and cycles = "Num 100" and years = "Num 2" and terrain = "Num 1"
         and climateOn = False and climateF = "Num 0.85" and regenOn = True
         and regenF = "Num 1.05"
         and y = 2 and dc = 16 and tf = 1 and a = 80 and cap = 60 and t = 25 and be = "0.98"
         and cd = "0.98" and c = 100 and con = False and cf = "0.85" and ron = True
         and rf = "1.05"]
    by blast
qed

text \<open>
  Claim C3, as the specification states it, fails: not every numeric input gives a range
  of at least 0. With a state of charge of 0 and a consumption of 0, the other inputs at
  their defaults, the division is \<open>0 / 0\<close> and the returned range is \<open>NaN\<close>.
\<close>

theorem calculateRange_NaN_at_zero_consumption:
  "range_km (calculateRange (Num 0) (Num 60) (Num 0) (Num 25) (Num 0.98) (Num 0.98) (Num 100)
       (Num 2) (Num 1.0) False (Num 0.85) True (Num 1.05)) = NaN
   \<and> \<not> jle (Num 0) (range_km (calculateRange (Num 0) (Num 60) (Num 0) (Num 25) (Num 0.98)
       (Num 0.98) (Num 100) (Num 2) (Num 1.0) False (Num 0.85) True (Num 1.05)))"
  by (simp add: calculateRange_def Let_def effectiveCapacity_of_Num energyConsumption_of_def
        range_of_def inf_of_sign_def jmax_def)

subsection \<open>The sensitivity table\<close>










subsection \<open>Incomplete inputs\<close>

lemma step_keeps_invariant:
  "(\<not> calculationTriggered s \<longrightarrow> predictedRange s = None) \<Longrightarrow>
   (\<not> calculationTriggered (step s e) \<longrightarrow> predictedRange (step s e) = None)"
  by (cases e) (simp_all add: rangeEffect_def handleCalculate_def Let_def)

lemma run_invariant: "\<not> calculationTriggered (run evs) \<longrightarrow> predictedRange (run evs) = None"
proof (induction evs rule: rev_induct)
  case Nil
  show ?case by (simp add: run_def initialA_def)
next
  case (snoc e evs)
  then show ?case using step_keeps_invariant [of "run evs" e] by (simp add: run_def)
qed

lemma invalid_iff:
  "(\<not> validateInputs s) = (\<exists>f\<in>set (requiredFields s). f = Empty \<or> isNaN (Number f))"
  by (auto simp add: validateInputs_def list_all_iff)

text \<open>
  The two guarded paths. In every state the form can reach, if one of the required fields
  (three with the advanced options hidden, eleven with them shown) is empty or not
  numeric, then validation fails, the effect leaves the predicted range \<open>null\<close> once it
  runs, and the Calculate handler computes nothing: it only records that a calculation
  was asked for.
\<close>

lemma guarded_paths_refuse:
  assumes "\<exists>f\<in>set (requiredFields (run evs)). f = Empty \<or> isNaN (Number f)"
  shows "\<not> validateInputs (run evs)
       \<and> predictedRange (rangeEffect (run evs)) = None
       \<and> handleCalculate (run evs) = (run evs)\<lparr>calculationTriggered := True\<rparr>
       \<and> predictedRange (rangeEffect (handleCalculate (run evs))) = None"
proof -
  have n: "\<not> validateInputs (run evs)" using assms by (simp only: invalid_iff)
  have h: "handleCalculate (run evs) = (run evs)\<lparr>calculationTriggered := True\<rparr>"
    using n by (simp add: handleCalculate_def)
  have "validateInputs ((run evs)\<lparr>calculationTriggered := True\<rparr>) = validateInputs (run evs)"
    by (simp add: validateInputs_def requiredFields_def)
  then have e: "predictedRange (rangeEffect (handleCalculate (run evs))) = None"
    using n h by (simp add: rangeEffect_def)
  have "predictedRange (rangeEffect (run evs)) = None"
    using n run_invariant [of evs] by (simp add: rangeEffect_def)
  then show ?thesis using n h e by simp
qed

lemma clearedCapacityA_eq:
  "clearedCapacityA
   = fixtureA\<lparr>batteryCapacity := Empty, predictedRange := Some (Num 290.9),
              calculationTriggered := True\<rparr>"
  using fixture_valid fixture_stats_range
  by (simp add: clearedCapacityA_def run_def handleCalculate_def Let_def fixtureA_def)

lemma zero_capacity_range:
  "range_km (calculateRange (Num a) (Num 0) (Num 14) (Num 25) (Num 0.98) (Num 0.98) (Num 100)
       (Num 2) (Num 1) False (Num 0.85) True (Num 1.05)) = Num 0"
proof -
  have "range_km (calculateRange (Num a) (Num 0) (Num 14) (Num 25) (Num 0.98) (Num 0.98)
          (Num 100) (Num 2) (Num 1) False (Num 0.85) True (Num 1.05))
        = toFixed 1 (Num (max 0 (0 * (a / 100)
            * otherFactors 25 0.98 0.98 100 2 False 0.85 True 1.05 / (14 * 1) * 100)))"
    by (rule range_km_Num) simp_all
  then show ?thesis by simp
qed

text \<open>
  Claim C5 fails in the state \<open>clearedCapacityA\<close>. The capacity field, which is required,
  is empty and validation fails, yet the predicted range is still 290.9 and the results
  panel is rendered: its call of \<open>calculateStats\<close> has no validation in front of it,
  takes \<open>Number('')\<close>, which is 0, for the capacity, and shows an effective capacity of
  0 and a range of 0 for each of the five states of charge. Only the effect, once it
  runs, sets the predicted range to \<open>null\<close> and hides the panel.
\<close>

theorem render_computes_on_cleared_field:
  "batteryCapacity clearedCapacityA = Empty
   \<and> \<not> validateInputs clearedCapacityA
   \<and> predictedRange clearedCapacityA = Some (Num 290.9)
   \<and> renderResults clearedCapacityA = Some (Num 290.9, calculateStats clearedCapacityA)
   \<and> effectiveCapacity (core (calculateStats clearedCapacityA)) = Num 0
   \<and> rangeSensitivity (calculateStats clearedCapacityA)
     = [(Num 10, Num 0), (Num 30, Num 0), (Num 50, Num 0), (Num 70, Num 0), (Num 90, Num 0)]
   \<and> predictedRange (rangeEffect clearedCapacityA) = None
   \<and> renderResults (rangeEffect clearedCapacityA) = None"
proof -
  have f: "batteryCapacity clearedCapacityA = Empty" "\<not> showAdvanced clearedCapacityA"
    "soc clearedCapacityA = Text (Num 80)" "calculationTriggered clearedCapacityA"
    "predictedRange clearedCapacityA = Some (Num 290.9)"
    by (simp_all add: clearedCapacityA_eq fixtureA_def initialA_def)
  have v: "\<not> validateInputs clearedCapacityA"
    using f by (simp add: validateInputs_def requiredFields_def)
  have r: "renderResults clearedCapacityA = Some (Num 290.9, calculateStats clearedCapacityA)"
    using f by (simp add: renderResults_def)
  have "effectiveCapacity (core (calculateStats clearedCapacityA))
        = toFixed 2 (effectiveCapacity_of (Num 80) (Num 0) (Num 25) (Num 0.98) (Num 0.98)
            (Num 100) (Num 2) False (Num 0.85) True (Num 1.05))"
    using f by (simp add: calculateStats_simple calculateRange_def Let_def)
  then have c: "effectiveCapacity (core (calculateStats clearedCapacityA)) = Num 0"
    by (simp add: effectiveCapacity_of_Num)
  have t: "rangeSensitivity (calculateStats clearedCapacityA)
     = [(Num 10, Num 0), (Num 30, Num 0), (Num 50, Num 0), (Num 70, Num 0), (Num 90, Num 0)]"
    using f zero_capacity_range [of 10] zero_capacity_range [of 30] zero_capacity_range [of 50]
      zero_capacity_range [of 70] zero_capacity_range [of 90]
    by (simp add: sensitivity_simple getDynamicDefaults_Num socValues_def)
  have e: "predictedRange (rangeEffect clearedCapacityA) = None"
    "calculationTriggered (rangeEffect clearedCapacityA)"
    using f v by (simp_all add: rangeEffect_def)
  then have h: "renderResults (rangeEffect clearedCapacityA) = None"
    by (simp add: renderResults_def)
  show ?thesis using f v r c t e h by simp
qed

end
